theory Spec2Isabelle
  imports Main
begin

section \<open>The conversation session controller of the chat page\<close>

text \<open>
  The development embeds the script of \<^verbatim>\<open>src/routes/+page.svelte\<close> and the data module
  \<^verbatim>\<open>src/lib/data/conversations.ts\<close>.

  Conventions of the embedding.
  \<^item> A JavaScript string is a \<open>string\<close>; one \<open>char\<close> stands for one UTF-16 code unit
    below 256 (ASCII and Latin-1), so \<open>length\<close> is JavaScript's \<^verbatim>\<open>.length\<close> on such
    strings.
  \<^item> A \<^verbatim>\<open>Date\<close> is its number of milliseconds, an \<open>int\<close>. The clock (\<^verbatim>\<open>Date.now()\<close>,
    \<^verbatim>\<open>new Date()\<close>) and the random suffix of a message id are read from the environment,
    so every function that reads them takes them as arguments.
  \<^item> \<^verbatim>\<open>messageCount\<close> is a JavaScript number that is only ever incremented by one from
    a small start value; it is an \<open>int\<close> (doubles are exact on that range).
  \<^item> The module-level \<^verbatim>\<open>$state\<close> variables are the fields of the record \<open>state\<close>;
    every handler takes the state and returns the new one.
  \<^item> A handler that can throw returns an \<open>outcome\<close>: \<open>Inr\<close> the new state, or \<open>Inl\<close> the
    exception together with the state as the throw leaves it (assignments made before
    the throw stay).
  \<^item> \<^verbatim>\<open>handleSendMessage\<close> is an \<^verbatim>\<open>async\<close> function with one \<^verbatim>\<open>await\<close>: it is split at
    the \<^verbatim>\<open>await\<close> into the part that runs at the call and the continuation that runs
    when the timer fires. The continuation keeps the parameter \<^verbatim>\<open>content\<close> (a local of
    the call) and reads the \<^verbatim>\<open>$state\<close> variables as they are when it runs.
\<close>

subsection \<open>Data model (conversations.ts)\<close>

record Conversation =
  conv_id :: string
  title :: string
  lastMessage :: string
  timestamp :: int
  messageCount :: int

datatype sender = User | Model

datatype msg_status = Sending | Processing | Complete | Error

record ChatMessage =
  msg_id :: string
  msg_from :: sender
  content :: string
  msg_timestamp :: int
  status :: "msg_status option"

subsection \<open>String primitives of the JavaScript library\<close>

text \<open>\<^verbatim>\<open>String.prototype.toLowerCase\<close> on code units below 256: the letters A to Z and the
  Latin-1 capitals (0xC0 to 0xDE without the multiplication sign 0xD7) move up by 32.\<close>

definition toLowerChar :: "char \<Rightarrow> char" where
  "toLowerChar c =
     (let n = (of_char c :: nat)
      in if (65 \<le> n \<and> n \<le> 90) \<or> (192 \<le> n \<and> n \<le> 222 \<and> n \<noteq> 215)
         then char_of (n + 32) else c)"

definition toLowerCase :: "string \<Rightarrow> string" where
  "toLowerCase s = map toLowerChar s"

text \<open>\<^verbatim>\<open>String.prototype.trim\<close>: white space and line terminators below 256 are TAB, LF, VT,
  FF, CR, SPACE and NBSP.\<close>

definition isWhiteSpace :: "char \<Rightarrow> bool" where
  "isWhiteSpace c =
     (let n = (of_char c :: nat) in (9 \<le> n \<and> n \<le> 13) \<or> n = 32 \<or> n = 160)"

definition trim :: "string \<Rightarrow> string" where
  "trim s = rev (dropWhile isWhiteSpace (rev (dropWhile isWhiteSpace s)))"

text \<open>\<^verbatim>\<open>String.prototype.includes\<close>: the key occurs as a contiguous block.\<close>

fun startsWith :: "string \<Rightarrow> string \<Rightarrow> bool" where
  "startsWith s [] = True"
| "startsWith [] (k # ks) = False"
| "startsWith (c # cs) (k # ks) = (c = k \<and> startsWith cs ks)"

fun includes_str :: "string \<Rightarrow> string \<Rightarrow> bool" where
  "includes_str [] k = (k = [])"
| "includes_str (c # cs) k = (startsWith (c # cs) k \<or> includes_str cs k)"

text \<open>\<^verbatim>\<open>lastMessage.length > n ? lastMessage.substring(0, n) + '...' : lastMessage\<close>, the
  expression used twice in \<^verbatim>\<open>updateConversationMetadata\<close> (with 60 and with 30).\<close>

definition truncateTo :: "nat \<Rightarrow> string \<Rightarrow> string" where
  "truncateTo n s = (if length s > n then take n s @ ''...'' else s)"

text \<open>Decimal rendering of an integer inside a template literal.\<close>

fun showNat :: "nat \<Rightarrow> string" where
  "showNat n =
     (if n < 10 then [char_of (48 + n)]
      else showNat (n div 10) @ [char_of (48 + n mod 10)])"

declare showNat.simps [simp del]

definition showInt :: "int \<Rightarrow> string" where
  "showInt i = (if i < 0 then ''-'' @ showNat (nat (- i)) else showNat (nat i))"

subsection \<open>The response classifier (+page.svelte, generateMockResponse)\<close>

definition issuesReply :: string where
  "issuesReply = ''I can help you with issues. Would you like me to:\<newline>\<newline>1. List open issues\<newline>2. Search for specific issues\<newline>3. Create a new issue\<newline>4. Get details about a particular issue\<newline>\<newline>What would you like to do?''"

definition statsReply :: string where
  "statsReply = ''I can provide repository statistics and team velocity metrics. Let me fetch the latest data for you...''"

definition pullRequestsReply :: string where
  "pullRequestsReply = ''I can help you with pull requests. Would you like me to:\<newline>\<newline>1. List open pull requests\<newline>2. Review a specific PR\<newline>3. Get PR details\<newline>\<newline>What would you like to do?''"

definition labelsReply :: string where
  "labelsReply = ''I can help you manage labels. Would you like to:\<newline>\<newline>1. List all labels\<newline>2. Create a new label\<newline>3. Update existing labels\<newline>4. Get labels for a specific issue\<newline>\<newline>What would you like to do?''"

definition fallbackReply :: "string \<Rightarrow> string" where
  \<open>fallbackReply userMessage =
     ''I understand you're asking about "'' @ userMessage @
     ''". Let me help you with that. Could you provide more details about what you'd like me to do?''\<close>

definition generateMockResponse :: "string \<Rightarrow> string" where
  "generateMockResponse userMessage =
     (let lowerMessage = toLowerCase userMessage
      in if includes_str lowerMessage ''issue'' \<or> includes_str lowerMessage ''bug''
         then issuesReply
         else if includes_str lowerMessage ''stat'' \<or> includes_str lowerMessage ''metric''
                 \<or> includes_str lowerMessage ''velocity''
         then statsReply
         else if includes_str lowerMessage ''pull request'' \<or> includes_str lowerMessage ''pr''
         then pullRequestsReply
         else if includes_str lowerMessage ''label''
         then labelsReply
         else fallbackReply userMessage)"

text \<open>The classifier as the specification words it: a table of rules in priority order,
  each a list of keywords and a canned reply; the reply of the first rule one of whose
  keywords occurs in the lowercased input, else the fallback sentence, written out here,
  around the input as it was given.\<close>

definition occursIn :: "string \<Rightarrow> string \<Rightarrow> bool" where
  "occursIn k s = (\<exists>before after. s = before @ k @ after)"

definition classifierRules :: "(string list \<times> string) list" where
  "classifierRules =
     [([''issue'', ''bug''], issuesReply),
      ([''stat'', ''metric'', ''velocity''], statsReply),
      ([''pull request'', ''pr''], pullRequestsReply),
      ([''label''], labelsReply)]"

definition ruleMatches :: "string \<Rightarrow> string list \<times> string \<Rightarrow> bool" where
  "ruleMatches s rule = list_ex (\<lambda>k. occursIn k s) (fst rule)"

definition classify :: "string \<Rightarrow> string" where
  \<open>classify userText =
     (case find (ruleMatches (toLowerCase userText)) classifierRules of
        Some rule \<Rightarrow> snd rule
      | None \<Rightarrow>
          ''I understand you're asking about "'' @ userText @
          ''". Let me help you with that. Could you provide more details about what you'd like me to do?'')\<close>

subsection \<open>Mock data and id helpers (conversations.ts)\<close>

text \<open>The module reads the clock once when it is loaded (\<^verbatim>\<open>const now = Date.now()\<close>); the
  seeded time stamps are offsets from that reading, the argument \<open>now\<close> below.\<close>

definition thirtyMinutesAgo :: "int \<Rightarrow> int" where
  "thirtyMinutesAgo now = now - 1000 * 60 * 30"

definition twoHoursAgo :: "int \<Rightarrow> int" where
  "twoHoursAgo now = now - 1000 * 60 * 60 * 2"

definition yesterday :: "int \<Rightarrow> int" where
  "yesterday now = now - 1000 * 60 * 60 * 24"

definition threeDaysAgo :: "int \<Rightarrow> int" where
  "threeDaysAgo now = now - 1000 * 60 * 60 * 24 * 3"

definition lastWeek :: "int \<Rightarrow> int" where
  "lastWeek now = now - 1000 * 60 * 60 * 24 * 7"

definition mockConversations :: "int \<Rightarrow> Conversation list" where
  "mockConversations now =
     [\<lparr>conv_id = ''conv-1'', title = ''GitHub Issue Analysis'',
       lastMessage = ''I found 3 open issues related to authentication...'',
       timestamp = thirtyMinutesAgo now, messageCount = 4\<rparr>,
      \<lparr>conv_id = ''conv-2'', title = ''Repository Statistics'',
       lastMessage = ''The repository has 45 open issues and 12 pull requests.'',
       timestamp = twoHoursAgo now, messageCount = 6\<rparr>,
      \<lparr>conv_id = ''conv-3'', title = ''Team Velocity Metrics'',
       lastMessage = ''Based on the data, your team closed 23 issues this week.'',
       timestamp = yesterday now, messageCount = 5\<rparr>,
      \<lparr>conv_id = ''conv-4'', title = ''Codebase Query'',
       lastMessage = ''The authentication module is located in src/auth/'',
       timestamp = threeDaysAgo now, messageCount = 3\<rparr>,
      \<lparr>conv_id = ''conv-5'', title = ''Issue Creation Help'',
       lastMessage = ''I can help you create a new issue. What would you like to track?'',
       timestamp = lastWeek now, messageCount = 7\<rparr>,
      \<lparr>conv_id = ''conv-6'', title = ''Label Management'',
       lastMessage = ''All labels have been updated successfully.'',
       timestamp = now - 1000 * 60 * 15, messageCount = 4\<rparr>,
      \<lparr>conv_id = ''conv-7'', title = ''Pull Request Review'',
       lastMessage = ''The PR #42 has been reviewed and approved.'',
       timestamp = now - 1000 * 60 * 45, messageCount = 8\<rparr>]"

definition mockMessagesTable :: "int \<Rightarrow> (string \<times> ChatMessage list) list" where
  \<open>mockMessagesTable now =
     [(''conv-1'',
        [\<lparr>msg_id = ''msg-1-1'', msg_from = User,
          content = ''Can you analyze the open issues in the repository?'',
          msg_timestamp = thirtyMinutesAgo now - 1000 * 60 * 10, status = Some Complete\<rparr>,
         \<lparr>msg_id = ''msg-1-2'', msg_from = Model,
          content = ''I'll analyze the open issues for you. Let me fetch the data...'',
          msg_timestamp = thirtyMinutesAgo now - 1000 * 60 * 9, status = Some Complete\<rparr>,
         \<lparr>msg_id = ''msg-1-3'', msg_from = User,
          content = ''Focus on authentication-related issues'',
          msg_timestamp = thirtyMinutesAgo now - 1000 * 60 * 5, status = Some Complete\<rparr>,
         \<lparr>msg_id = ''msg-1-4'', msg_from = Model,
          content = ''I found 3 open issues related to authentication:\<newline>\<newline>1. Issue #42: "OAuth token refresh failing"\<newline>2. Issue #58: "Session timeout too short"\<newline>3. Issue #71: "Password reset email not sending"\<newline>\<newline>Would you like me to get more details on any of these?'',
          msg_timestamp = thirtyMinutesAgo now, status = Some Complete\<rparr>]),
      (''conv-2'',
        [\<lparr>msg_id = ''msg-2-1'', msg_from = User,
          content = ''Show me repository statistics'',
          msg_timestamp = twoHoursAgo now - 1000 * 60 * 20, status = Some Complete\<rparr>,
         \<lparr>msg_id = ''msg-2-2'', msg_from = Model,
          content = ''Fetching repository statistics...'',
          msg_timestamp = twoHoursAgo now - 1000 * 60 * 19, status = Some Complete\<rparr>,
         \<lparr>msg_id = ''msg-2-3'', msg_from = Model,
          content = ''Here are the current repository statistics:\<newline>\<newline>- Open Issues: 45\<newline>- Closed Issues: 234\<newline>- Open Pull Requests: 12\<newline>- Merged Pull Requests: 189\<newline>- Contributors: 28\<newline>- Stars: 1,234'',
          msg_timestamp = twoHoursAgo now - 1000 * 60 * 18, status = Some Complete\<rparr>,
         \<lparr>msg_id = ''msg-2-4'', msg_from = User,
          content = ''What about the last 30 days?'',
          msg_timestamp = twoHoursAgo now - 1000 * 60 * 10, status = Some Complete\<rparr>,
         \<lparr>msg_id = ''msg-2-5'', msg_from = Model,
          content = ''In the last 30 days:\<newline>\<newline>- 12 new issues opened\<newline>- 18 issues closed\<newline>- 5 new pull requests\<newline>- 8 pull requests merged'',
          msg_timestamp = twoHoursAgo now - 1000 * 60 * 9, status = Some Complete\<rparr>,
         \<lparr>msg_id = ''msg-2-6'', msg_from = Model,
          content = ''The repository has 45 open issues and 12 pull requests.'',
          msg_timestamp = twoHoursAgo now, status = Some Complete\<rparr>]),
      (''conv-3'',
        [\<lparr>msg_id = ''msg-3-1'', msg_from = User,
          content = ''What's our team velocity this week?'',
          msg_timestamp = yesterday now - 1000 * 60 * 30, status = Some Complete\<rparr>,
         \<lparr>msg_id = ''msg-3-2'', msg_from = Model,
          content = ''Calculating team velocity metrics...'',
          msg_timestamp = yesterday now - 1000 * 60 * 29, status = Some Complete\<rparr>,
         \<lparr>msg_id = ''msg-3-3'', msg_from = Model,
          content = ''Based on the data, your team closed 23 issues this week.'',
          msg_timestamp = yesterday now, status = Some Complete\<rparr>,
         \<lparr>msg_id = ''msg-3-4'', msg_from = User,
          content = ''Compare to last week'',
          msg_timestamp = yesterday now - 1000 * 60 * 5, status = Some Complete\<rparr>,
         \<lparr>msg_id = ''msg-3-5'', msg_from = Model,
          content = ''Last week your team closed 19 issues, so this week shows a 21% increase in velocity.'',
          msg_timestamp = yesterday now - 1000 * 60 * 4, status = Some Complete\<rparr>]),
      (''conv-4'',
        [\<lparr>msg_id = ''msg-4-1'', msg_from = User,
          content = ''Where is the authentication code located?'',
          msg_timestamp = threeDaysAgo now - 1000 * 60 * 15, status = Some Complete\<rparr>,
         \<lparr>msg_id = ''msg-4-2'', msg_from = Model,
          content = ''Searching the codebase for authentication-related files...'',
          msg_timestamp = threeDaysAgo now - 1000 * 60 * 14, status = Some Complete\<rparr>,
         \<lparr>msg_id = ''msg-4-3'', msg_from = Model,
          content = ''The authentication module is located in src/auth/'',
          msg_timestamp = threeDaysAgo now, status = Some Complete\<rparr>]),
      (''conv-5'',
        [\<lparr>msg_id = ''msg-5-1'', msg_from = User,
          content = ''I need to create a new issue'',
          msg_timestamp = lastWeek now - 1000 * 60 * 45, status = Some Complete\<rparr>,
         \<lparr>msg_id = ''msg-5-2'', msg_from = Model,
          content = ''I can help you create a new issue. What would you like to track?'',
          msg_timestamp = lastWeek now, status = Some Complete\<rparr>,
         \<lparr>msg_id = ''msg-5-3'', msg_from = User,
          content = ''A bug in the login flow'',
          msg_timestamp = lastWeek now - 1000 * 60 * 40, status = Some Complete\<rparr>,
         \<lparr>msg_id = ''msg-5-4'', msg_from = Model,
          content = ''I can create an issue for the login flow bug. Would you like me to:\<newline>\<newline>1. Create it now with a default title and description?\<newline>2. Let you provide more details first?\<newline>\<newline>What would you prefer?'',
          msg_timestamp = lastWeek now - 1000 * 60 * 39, status = Some Complete\<rparr>,
         \<lparr>msg_id = ''msg-5-5'', msg_from = User,
          content = ''Let me provide more details'',
          msg_timestamp = lastWeek now - 1000 * 60 * 35, status = Some Complete\<rparr>,
         \<lparr>msg_id = ''msg-5-6'', msg_from = Model,
          content = ''Please provide:\<newline>- Title for the issue\<newline>- Description of the bug\<newline>- Steps to reproduce (if known)\<newline>- Expected vs actual behavior'',
          msg_timestamp = lastWeek now - 1000 * 60 * 34, status = Some Complete\<rparr>,
         \<lparr>msg_id = ''msg-5-7'', msg_from = User,
          content = ''Title: Login fails with OAuth providers\<newline>Description: Users cannot log in using Google or GitHub OAuth'',
          msg_timestamp = lastWeek now - 1000 * 60 * 30, status = Some Complete\<rparr>]),
      (''conv-6'',
        [\<lparr>msg_id = ''msg-6-1'', msg_from = User,
          content = ''Update all bug labels to use "bug" instead of "Bug"'',
          msg_timestamp = now - 1000 * 60 * 20, status = Some Complete\<rparr>,
         \<lparr>msg_id = ''msg-6-2'', msg_from = Model,
          content = ''I'll update the label naming convention for you.'',
          msg_timestamp = now - 1000 * 60 * 19, status = Some Complete\<rparr>,
         \<lparr>msg_id = ''msg-6-3'', msg_from = Model,
          content = ''All labels have been updated successfully.'',
          msg_timestamp = now - 1000 * 60 * 15, status = Some Complete\<rparr>,
         \<lparr>msg_id = ''msg-6-4'', msg_from = User,
          content = ''Thanks!'',
          msg_timestamp = now - 1000 * 60 * 14, status = Some Complete\<rparr>]),
      (''conv-7'',
        [\<lparr>msg_id = ''msg-7-1'', msg_from = User,
          content = ''Review pull request #42'',
          msg_timestamp = now - 1000 * 60 * 50, status = Some Complete\<rparr>,
         \<lparr>msg_id = ''msg-7-2'', msg_from = Model,
          content = ''Analyzing pull request #42...'',
          msg_timestamp = now - 1000 * 60 * 49, status = Some Complete\<rparr>,
         \<lparr>msg_id = ''msg-7-3'', msg_from = Model,
          content = ''PR #42 Summary:\<newline>- Title: "Add dark mode support"\<newline>- Author: @johndoe\<newline>- Files changed: 12\<newline>- Additions: +234 lines\<newline>- Deletions: -45 lines\<newline>- Status: Open'',
          msg_timestamp = now - 1000 * 60 * 48, status = Some Complete\<rparr>,
         \<lparr>msg_id = ''msg-7-4'', msg_from = User,
          content = ''What are the main changes?'',
          msg_timestamp = now - 1000 * 60 * 47, status = Some Complete\<rparr>,
         \<lparr>msg_id = ''msg-7-5'', msg_from = Model,
          content = ''The main changes include:\<newline>1. Added dark mode theme configuration\<newline>2. Updated CSS variables for color schemes\<newline>3. Added theme toggle component\<newline>4. Updated all components to support dark mode'',
          msg_timestamp = now - 1000 * 60 * 46, status = Some Complete\<rparr>,
         \<lparr>msg_id = ''msg-7-6'', msg_from = User,
          content = ''Approve it'',
          msg_timestamp = now - 1000 * 60 * 45, status = Some Complete\<rparr>,
         \<lparr>msg_id = ''msg-7-7'', msg_from = Model,
          content = ''The PR #42 has been reviewed and approved.'',
          msg_timestamp = now - 1000 * 60 * 45, status = Some Complete\<rparr>,
         \<lparr>msg_id = ''msg-7-8'', msg_from = User,
          content = ''Great!'',
          msg_timestamp = now - 1000 * 60 * 44, status = Some Complete\<rparr>])]\<close>

text \<open>\<^verbatim>\<open>mockMessages\<close> is a plain object literal, so \<^verbatim>\<open>mockMessages[key]\<close> finds its seven own
  keys and, through the prototype chain, the members of \<^verbatim>\<open>Object.prototype\<close>: eleven
  functions and the accessor \<^verbatim>\<open>__proto__\<close>, which yields \<^verbatim>\<open>Object.prototype\<close> itself. Every
  other key gives \<^verbatim>\<open>undefined\<close>.\<close>

definition objectPrototypeKeys :: "string list" where
  "objectPrototypeKeys =
     [''constructor'', ''__defineGetter__'', ''__defineSetter__'', ''hasOwnProperty'',
      ''__lookupGetter__'', ''__lookupSetter__'', ''isPrototypeOf'',
      ''propertyIsEnumerable'', ''toString'', ''valueOf'', ''__proto__'',
      ''toLocaleString'']"

datatype property = Undefined | Thread "ChatMessage list" | Inherited

definition mockMessages :: "int \<Rightarrow> string \<Rightarrow> property" where
  "mockMessages now key =
     (case map_of (mockMessagesTable now) key of
        Some ms \<Rightarrow> Thread ms
      | None \<Rightarrow> if key \<in> set objectPrototypeKeys then Inherited else Undefined)"

definition generateConversationId :: "int \<Rightarrow> string" where
  "generateConversationId dateNow = ''conv-'' @ showInt dateNow"

text \<open>The second argument is the value of
  \<^verbatim>\<open>Math.random().toString(36).substr(2, 9)\<close>.\<close>

definition generateMessageId :: "int \<Rightarrow> string \<Rightarrow> string" where
  "generateMessageId dateNow rnd = ''msg-'' @ showInt dateNow @ ''-'' @ rnd"

subsection \<open>The page controller (+page.svelte)\<close>

text \<open>The four \<^verbatim>\<open>$state\<close> variables. The fifth, \<^verbatim>\<open>chatContainer\<close>, is the DOM node that
  \<^verbatim>\<open>scrollToBottom\<close> scrolls; neither touches the four, so both are left out.\<close>

record state =
  conversations :: "Conversation list"
  currentConversationId :: "string option"
  chatContent :: "ChatMessage list"
  isProcessing :: bool

datatype error = TypeError

type_synonym outcome = "(error \<times> state) + state"

definition stateOf :: "outcome \<Rightarrow> state" where
  "stateOf r = (case r of Inl (e, s) \<Rightarrow> s | Inr s \<Rightarrow> s)"

text \<open>The first argument \<open>t0\<close> of the functions that read \<^verbatim>\<open>mockMessages\<close> is the clock
  reading of the module load. A run of a handler up to its end or its \<^verbatim>\<open>await\<close> reads one
  clock value, its argument \<open>now\<close>.\<close>

definition initialState :: "int \<Rightarrow> state" where
  "initialState t0 =
     \<lparr>conversations = mockConversations t0, currentConversationId = None,
      chatContent = [], isProcessing = False\<rparr>"

text \<open>\<^verbatim>\<open>const messages = mockMessages[conversationId] || []; chatContent = [...messages]\<close>:
  \<^verbatim>\<open>undefined\<close> is falsy and gives the empty thread; an array (also an empty one) is truthy
  and is copied; an inherited member is truthy and not iterable, so the spread throws a
  \<^verbatim>\<open>TypeError\<close> before \<^verbatim>\<open>chatContent\<close> is assigned.\<close>

definition loadConversationMessages :: "int \<Rightarrow> state \<Rightarrow> string \<Rightarrow> outcome" where
  "loadConversationMessages t0 s conversationId =
     (case mockMessages t0 conversationId of
        Undefined \<Rightarrow> Inr (s\<lparr>chatContent := []\<rparr>)
      | Thread messages \<Rightarrow> Inr (s\<lparr>chatContent := messages\<rparr>)
      | Inherited \<Rightarrow> Inl (TypeError, s))"

text \<open>The \<^verbatim>\<open>$effect\<close>: with a conversation in the list and none selected, the first one is
  selected and its thread loaded.\<close>

definition autoSelectEffect :: "int \<Rightarrow> state \<Rightarrow> outcome" where
  "autoSelectEffect t0 s =
     (case conversations s of
        [] \<Rightarrow> Inr s
      | first # rest \<Rightarrow>
          if currentConversationId s = None
          then loadConversationMessages t0
                 (s\<lparr>currentConversationId := Some (conv_id first)\<rparr>) (conv_id first)
          else Inr s)"

text \<open>The page once the effect has run on the initial state.\<close>

definition mounted :: "int \<Rightarrow> state" where
  "mounted t0 = stateOf (autoSelectEffect t0 (initialState t0))"

text \<open>\<^verbatim>\<open>currentConversationId = id\<close> comes first, so it stays when the load throws;
  \<^verbatim>\<open>isProcessing = false\<close> comes last and is not reached then.\<close>

definition handleSelectConversation :: "int \<Rightarrow> state \<Rightarrow> string \<Rightarrow> outcome" where
  "handleSelectConversation t0 s ident =
     (case loadConversationMessages t0 (s\<lparr>currentConversationId := Some ident\<rparr>) ident of
        Inl thrown \<Rightarrow> Inl thrown
      | Inr s1 \<Rightarrow> Inr (s1\<lparr>isProcessing := False\<rparr>))"

definition handleCreateNew :: "state \<Rightarrow> int \<Rightarrow> state" where
  "handleCreateNew s now =
     (let newId = generateConversationId now;
          newConversation =
            \<lparr>conv_id = newId, title = ''New Chat'', lastMessage = '''',
             timestamp = now, messageCount = 0\<rparr>
      in s\<lparr>conversations := newConversation # conversations s,
           currentConversationId := Some newId,
           chatContent := [],
           isProcessing := False\<rparr>)"

definition updateConversationMetadata :: "state \<Rightarrow> string \<Rightarrow> string \<Rightarrow> int \<Rightarrow> state" where
  "updateConversationMetadata s conversationId lastMsg now =
     s\<lparr>conversations :=
         map (\<lambda>conv.
               if conv_id conv = conversationId
               then conv\<lparr>lastMessage := truncateTo 60 lastMsg,
                         timestamp := now,
                         messageCount := messageCount conv + 1,
                         title := (if title conv = ''New Chat'' \<and> length (chatContent s) = 1
                                   then truncateTo 30 lastMsg
                                   else title conv)\<rparr>
               else conv)
             (conversations s)\<rparr>"

text \<open>\<^verbatim>\<open>handleSendMessage\<close> from its call to its \<^verbatim>\<open>await\<close>. The guard
  \<^verbatim>\<open>!currentConversationId || !content.trim()\<close> returns for \<^verbatim>\<open>null\<close> and for the empty
  string, both falsy. The second component of the result is the continuation the call
  leaves behind: \<open>None\<close> when it returned at the guard, else the \<^verbatim>\<open>content\<close> that the
  continuation keeps.\<close>

definition handleSendMessage_call ::
    "state \<Rightarrow> string \<Rightarrow> int \<Rightarrow> string \<Rightarrow> state \<times> string option" where
  "handleSendMessage_call s text now rnd =
     (case currentConversationId s of
        None \<Rightarrow> (s, None)
      | Some ident \<Rightarrow>
          if ident = [] \<or> trim text = [] then (s, None)
          else
            let userMessage =
                  \<lparr>msg_id = generateMessageId now rnd, msg_from = User,
                   content = trim text,
                   msg_timestamp = now, status = Some Complete\<rparr>;
                s1 = s\<lparr>chatContent := chatContent s @ [userMessage],
                       isProcessing := True\<rparr>
            in (updateConversationMetadata s1 ident (trim text) now, Some text))"

text \<open>\<^verbatim>\<open>handleSendMessage\<close> after its \<^verbatim>\<open>await\<close>, run on the state as it is when the timer
  fires. \<^verbatim>\<open>currentConversationId\<close> is read again here; no conversation has the id
  \<^verbatim>\<open>null\<close>, so with \<open>None\<close> the metadata update changes nothing.\<close>

definition handleSendMessage_resume :: "state \<Rightarrow> string \<Rightarrow> int \<Rightarrow> string \<Rightarrow> state" where
  "handleSendMessage_resume s text now rnd =
     (let modelResponse =
            \<lparr>msg_id = generateMessageId now rnd, msg_from = Model,
             content = generateMockResponse text,
             msg_timestamp = now, status = Some Complete\<rparr>;
          s1 = s\<lparr>chatContent := chatContent s @ [modelResponse], isProcessing := False\<rparr>
      in case currentConversationId s1 of
           None \<Rightarrow> s1
         | Some ident \<Rightarrow> updateConversationMetadata s1 ident (content modelResponse) now)"

subsection \<open>Runs of the controller\<close>

text \<open>What the event loop can run, one at a time: the two sidebar intents, a call of
  \<^verbatim>\<open>handleSendMessage\<close>, and a timer firing the continuation of an earlier call (with the
  \<^verbatim>\<open>content\<close> that call kept). Each carries the clock value, and the random suffix, that
  the run reads. After a handler that threw, the loop goes on with the state the throw
  left.\<close>

datatype event =
  SelectConversation string
| CreateNew int
| SendMessage string int string
| TimerFires string int string

fun step :: "int \<Rightarrow> state \<Rightarrow> event \<Rightarrow> state" where
  "step t0 s (SelectConversation ident) = stateOf (handleSelectConversation t0 s ident)"
| "step t0 s (CreateNew now) = handleCreateNew s now"
| "step t0 s (SendMessage text now rnd) = fst (handleSendMessage_call s text now rnd)"
| "step t0 s (TimerFires text now rnd) = handleSendMessage_resume s text now rnd"

fun run :: "int \<Rightarrow> state \<Rightarrow> event list \<Rightarrow> state" where
  "run t0 s [] = s"
| "run t0 s (e # es) = run t0 (step t0 s e) es"

text \<open>Conversations are only ever added at the front of the list, so the conversations of
  a state \<open>s\<close> are, in a later state \<open>s'\<close>, the last \<open>length (conversations s)\<close>
  entries, in the same order.\<close>

definition laterOf :: "state \<Rightarrow> state \<Rightarrow> Conversation list" where
  "laterOf s s' = drop (length (conversations s') - length (conversations s)) (conversations s')"

text \<open>The text that the run of an event hands to \<^verbatim>\<open>updateConversationMetadata\<close>: the
  trimmed text for a call of \<^verbatim>\<open>handleSendMessage\<close>, the reply for its continuation. The
  two sidebar intents make no update.\<close>

fun updateText :: "event \<Rightarrow> string" where
  "updateText (SendMessage text now rnd) = trim text"
| "updateText (TimerFires text now rnd) = generateMockResponse text"
| "updateText (SelectConversation ident) = []"
| "updateText (CreateNew now) = []"

subsection \<open>Facts about the string primitives\<close>

lemma startsWith_iff: "startsWith s k \<longleftrightarrow> (\<exists>after. s = k @ after)"
  by (induction s k rule: startsWith.induct) auto

lemma includes_str_iff: "includes_str s k \<longleftrightarrow> occursIn k s"
proof (induction s)
  case Nil
  show ?case by (auto simp: occursIn_def)
next
  case (Cons c cs)
  show ?case
  proof
    assume "includes_str (c # cs) k"
    then consider "startsWith (c # cs) k" | "includes_str cs k" by auto
    then show "occursIn k (c # cs)"
    proof cases
      case 1
      then obtain after where "c # cs = k @ after" by (auto simp: startsWith_iff)
      then have "c # cs = [] @ k @ after" by simp
      then show ?thesis unfolding occursIn_def by blast
    next
      case 2
      with Cons obtain before after where "cs = before @ k @ after"
        by (auto simp: occursIn_def)
      then have "c # cs = (c # before) @ k @ after" by simp
      then show ?thesis unfolding occursIn_def by blast
    qed
  next
    assume "occursIn k (c # cs)"
    then obtain before after where eq: "c # cs = before @ k @ after"
      by (auto simp: occursIn_def)
    show "includes_str (c # cs) k"
    proof (cases before)
      case Nil
      with eq have "startsWith (c # cs) k" by (auto simp: startsWith_iff)
      then show ?thesis by simp
    next
      case (Cons b bs)
      with eq have "cs = bs @ k @ after" by simp
      then have "occursIn k cs" unfolding occursIn_def by blast
      with Cons.IH show ?thesis by simp
    qed
  qed
qed

subsection \<open>Evaluating characters\<close>

lemma char_of_nat_bits:
  "char_of (n::nat) = Char (odd n) (odd (n div 2)) (odd (n div 4)) (odd (n div 8))
     (odd (n div 16)) (odd (n div 32)) (odd (n div 64)) (odd (n div 128))"
  by (simp add: char_of_def bit_iff_odd)

lemma truncateTo_length: "length (truncateTo n t) \<le> n + 3"
  by (simp add: truncateTo_def)

subsection \<open>The metadata update\<close>

lemma update_frame [simp]:
  "currentConversationId (updateConversationMetadata s i t now) = currentConversationId s"
  "chatContent (updateConversationMetadata s i t now) = chatContent s"
  "isProcessing (updateConversationMetadata s i t now) = isProcessing s"
  "length (conversations (updateConversationMetadata s i t now)) = length (conversations s)"
  "map conv_id (conversations (updateConversationMetadata s i t now))
     = map conv_id (conversations s)"
  by (simp_all add: updateConversationMetadata_def)

lemma update_no_match:
  assumes "i \<notin> set (map conv_id (conversations s))"
  shows "updateConversationMetadata s i t now = s"
proof -
  have "map (\<lambda>conv. if conv_id conv = i then f conv else conv) (conversations s)
          = conversations s" for f
    using assms by (intro map_idI) auto
  then show ?thesis by (simp add: updateConversationMetadata_def)
qed

lemma update_list_all2:
  "list_all2 (\<lambda>c c'. c' = (if conv_id c = i
       then c\<lparr>lastMessage := truncateTo 60 t, timestamp := now,
              messageCount := messageCount c + 1,
              title := (if title c = ''New Chat'' \<and> length (chatContent s) = 1
                        then truncateTo 30 t else title c)\<rparr>
       else c))
     (conversations s) (conversations (updateConversationMetadata s i t now))"
  by (simp add: updateConversationMetadata_def list_all2_map2 list_all2_same)

subsection \<open>The two halves of handleSendMessage\<close>

lemma call_guard:
  "currentConversationId s = Some ident \<Longrightarrow> ident \<noteq> [] \<Longrightarrow> trim msg \<noteq> [] \<Longrightarrow>
   handleSendMessage_call s msg now rnd =
     (updateConversationMetadata
        (s\<lparr>chatContent := chatContent s @
              [\<lparr>msg_id = generateMessageId now rnd, msg_from = User, content = trim msg,
                msg_timestamp = now, status = Some Complete\<rparr>],
            isProcessing := True\<rparr>) ident (trim msg) now, Some msg)"
  by (simp add: handleSendMessage_call_def Let_def)

lemma call_returns:
  "currentConversationId s = None \<or> currentConversationId s = Some [] \<or> trim msg = [] \<Longrightarrow>
   handleSendMessage_call s msg now rnd = (s, None)"
  by (auto simp: handleSendMessage_call_def split: option.splits)

lemma resume_chatContent:
  "chatContent (handleSendMessage_resume s msg now rnd) =
     chatContent s @ [\<lparr>msg_id = generateMessageId now rnd, msg_from = Model,
       content = generateMockResponse msg, msg_timestamp = now, status = Some Complete\<rparr>]"
  by (simp add: handleSendMessage_resume_def Let_def split: option.splits)

lemma resume_fields:
  "isProcessing (handleSendMessage_resume s msg now rnd) = False"
  "currentConversationId (handleSendMessage_resume s msg now rnd) = currentConversationId s"
  by (simp_all add: handleSendMessage_resume_def Let_def split: option.splits)

lemma resume_conversations:
  "conversations (handleSendMessage_resume s msg now rnd) =
     (case currentConversationId s of
        None \<Rightarrow> conversations s
      | Some ident \<Rightarrow>
          conversations (updateConversationMetadata
            (s\<lparr>chatContent := chatContent s @
                 [\<lparr>msg_id = generateMessageId now rnd, msg_from = Model,
                   content = generateMockResponse msg, msg_timestamp = now,
                   status = Some Complete\<rparr>]\<rparr>)
            ident (generateMockResponse msg) now))"
  by (simp add: handleSendMessage_resume_def Let_def updateConversationMetadata_def
      split: option.splits)

lemma exchange_counts:
  assumes "currentConversationId s = Some ident" and "ident \<noteq> []" and "trim msg \<noteq> []"
  shows "list_all2 (\<lambda>c c'. messageCount c' =
              (if conv_id c = ident then messageCount c + 2 else messageCount c))
           (conversations s)
           (conversations (handleSendMessage_resume
              (fst (handleSendMessage_call s msg now rnd)) msg now' rnd'))"
  using assms
  by (simp add: call_guard resume_conversations updateConversationMetadata_def
      list_all2_map2 list_all2_same)

lemma call_titles:
  assumes "currentConversationId s = Some ident" and "ident \<noteq> []" and "trim msg \<noteq> []"
  shows "list_all2 (\<lambda>c c'. title c' =
              (if conv_id c = ident \<and> title c = ''New Chat'' \<and> chatContent s = []
               then truncateTo 30 (trim msg) else title c))
           (conversations s) (conversations (fst (handleSendMessage_call s msg now rnd)))"
  using assms
  by (simp add: call_guard updateConversationMetadata_def list_all2_map2 list_all2_same)

lemma exchange_resume_titles:
  assumes "currentConversationId s = Some ident" and "ident \<noteq> []" and "trim msg \<noteq> []"
  shows "map title (conversations (handleSendMessage_resume
              (fst (handleSendMessage_call s msg now rnd)) msg now' rnd'))
         = map title (conversations (fst (handleSendMessage_call s msg now rnd)))"
  using assms
  by (simp add: call_guard resume_conversations updateConversationMetadata_def)

subsection \<open>The seeded data\<close>

lemma mounted_conversations: "conversations (mounted t0) = mockConversations t0"
  by (simp add: mounted_def autoSelectEffect_def initialState_def stateOf_def
      loadConversationMessages_def mockConversations_def mockMessages_def
      mockMessagesTable_def)

lemma mounted_no_throw: "autoSelectEffect t0 (initialState t0) = Inr (mounted t0)"
  by (simp add: mounted_def autoSelectEffect_def initialState_def stateOf_def
      loadConversationMessages_def mockConversations_def mockMessages_def
      mockMessagesTable_def)

lemma mounted_selected: "currentConversationId (mounted t0) = Some ''conv-1''"
  by (simp add: mounted_def autoSelectEffect_def initialState_def stateOf_def
      loadConversationMessages_def mockConversations_def mockMessages_def
      mockMessagesTable_def)

lemma mockMessages_Undefined:
  "ident \<notin> set (map conv_id (mockConversations t0)) \<Longrightarrow> ident \<notin> set objectPrototypeKeys \<Longrightarrow>
   mockMessages t0 ident = Undefined"
  by (simp add: mockMessages_def mockMessagesTable_def mockConversations_def)

text \<open>The seeded \<^verbatim>\<open>lastMessage\<close> strings are literals, not results of an update; the one of
  \<^verbatim>\<open>conv-5\<close> has 64 characters.\<close>

lemma mock_lastMessage_lengths:
  "map (\<lambda>c. length (lastMessage c)) (mockConversations t0) = [50, 55, 56, 49, 64, 42, 42]"
  by (simp add: mockConversations_def)

subsection \<open>Selecting a conversation\<close>

lemma select_no_throw:
  "mockMessages t0 ident \<noteq> Inherited \<Longrightarrow>
   handleSelectConversation t0 s ident =
     Inr (s\<lparr>currentConversationId := Some ident,
            chatContent := (case mockMessages t0 ident of Thread ms \<Rightarrow> ms | _ \<Rightarrow> []),
            isProcessing := False\<rparr>)"
  by (cases "mockMessages t0 ident")
    (simp_all add: handleSelectConversation_def loadConversationMessages_def)

lemma select_throws:
  "mockMessages t0 ident = Inherited \<Longrightarrow>
   handleSelectConversation t0 s ident = Inl (TypeError, s\<lparr>currentConversationId := Some ident\<rparr>)"
  by (simp add: handleSelectConversation_def loadConversationMessages_def)

text \<open>An id that names a member of \<^verbatim>\<open>Object.prototype\<close> makes the handler throw: the id is
  stored, the thread and the flag stay.\<close>

lemma select_constructor_throws:
  "handleSelectConversation t0 s ''constructor''
     = Inl (TypeError, s\<lparr>currentConversationId := Some ''constructor''\<rparr>)"
  by (rule select_throws)
    (simp add: mockMessages_def mockMessagesTable_def objectPrototypeKeys_def)

lemma select_conversations:
  "conversations (stateOf (handleSelectConversation t0 s ident)) = conversations s"
  by (cases "mockMessages t0 ident")
    (simp_all add: handleSelectConversation_def loadConversationMessages_def stateOf_def)

subsection \<open>Invariants of runs\<close>

lemma step_length: "length (conversations s) \<le> length (conversations (step t0 s e))"
proof (cases e)
  case (SendMessage msg now rnd)
  then show ?thesis
    by (simp add: handleSendMessage_call_def Let_def split: option.splits)
next
  case (TimerFires msg now rnd)
  then show ?thesis
    by (simp add: resume_conversations split: option.splits)
qed (simp_all add: select_conversations handleCreateNew_def Let_def)

lemma run_length: "length (conversations s) \<le> length (conversations (run t0 s es))"
proof (induction es arbitrary: s)
  case Nil
  show ?case by simp
next
  case (Cons e es)
  have "length (conversations s) \<le> length (conversations (step t0 s e))"
    by (rule step_length)
  also have "\<dots> \<le> length (conversations (run t0 (step t0 s e) es))"
    by (rule Cons.IH)
  finally show ?case by simp
qed

lemma laterOf_self: "laterOf s s = conversations s"
  by (simp add: laterOf_def)

lemma laterOf_trans:
  assumes "length (conversations s) \<le> length (conversations s')"
    and "length (conversations s') \<le> length (conversations s'')"
  shows "laterOf s s'' =
           drop (length (conversations s') - length (conversations s)) (laterOf s' s'')"
  using assms by (simp add: laterOf_def)

text \<open>One event: every conversation keeps its id; its title changes only from the
  default, only for the selected conversation with exactly one message on display
  afterwards, and then to the truncated text of the event's update; its \<^verbatim>\<open>lastMessage\<close>
  stays or is at most 63 characters long.\<close>

lemma step_later:
  "list_all2 (\<lambda>c c'. conv_id c' = conv_id c
        \<and> (title c' = title c
           \<or> title c = ''New Chat'' \<and> currentConversationId s = Some (conv_id c)
             \<and> length (chatContent (step t0 s e)) = 1
             \<and> title c' = truncateTo 30 (updateText e))
        \<and> (lastMessage c' = lastMessage c \<or> length (lastMessage c') \<le> 63))
     (conversations s) (laterOf s (step t0 s e))"
proof (cases e)
  case (SelectConversation i)
  then show ?thesis
    by (simp add: laterOf_def select_conversations list_all2_same)
next
  case (CreateNew now)
  then show ?thesis
    by (simp add: laterOf_def handleCreateNew_def Let_def list_all2_same)
next
  case (SendMessage msg now rnd)
  show ?thesis
  proof (cases "\<exists>ident. currentConversationId s = Some ident \<and> ident \<noteq> [] \<and> trim msg \<noteq> []")
    case True
    then obtain ident
      where g: "currentConversationId s = Some ident" "ident \<noteq> []" "trim msg \<noteq> []"
      by blast
    show ?thesis
      using SendMessage g truncateTo_length [of 60 "trim msg"]
      by (simp add: laterOf_def call_guard updateConversationMetadata_def list_all2_map2
          list_all2_same)
  next
    case False
    then have "currentConversationId s = None \<or> currentConversationId s = Some []
               \<or> trim msg = []"
      by (cases "currentConversationId s") auto
    then have "handleSendMessage_call s msg now rnd = (s, None)"
      by (rule call_returns)
    with SendMessage show ?thesis
      by (simp add: laterOf_def list_all2_same)
  qed
next
  case (TimerFires msg now rnd)
  then show ?thesis
    using truncateTo_length [of 60 "generateMockResponse msg"]
    by (cases "currentConversationId s")
      (simp_all add: laterOf_def resume_conversations resume_chatContent
        updateConversationMetadata_def list_all2_map2 list_all2_same)
qed

text \<open>A run: ids stay, a title other than the default stays, and a \<^verbatim>\<open>lastMessage\<close> stays or
  is at most 63 characters long.\<close>

lemma run_later:
  "list_all2 (\<lambda>c c'. conv_id c' = conv_id c
        \<and> (title c \<noteq> ''New Chat'' \<longrightarrow> title c' = title c)
        \<and> (lastMessage c' = lastMessage c \<or> length (lastMessage c') \<le> 63))
     (conversations s) (laterOf s (run t0 s es))"
proof (induction es arbitrary: s)
  case Nil
  show ?case by (simp add: laterOf_self list_all2_same)
next
  case (Cons e es)
  let ?s' = "step t0 s e"
  let ?s'' = "run t0 ?s' es"
  let ?k = "length (conversations ?s') - length (conversations s)"
  have len1: "length (conversations s) \<le> length (conversations ?s')"
    by (rule step_length)
  have len2: "length (conversations ?s') \<le> length (conversations ?s'')"
    by (rule run_length)
  have first: "list_all2 (\<lambda>c c'. conv_id c' = conv_id c
        \<and> (title c \<noteq> ''New Chat'' \<longrightarrow> title c' = title c)
        \<and> (lastMessage c' = lastMessage c \<or> length (lastMessage c') \<le> 63))
     (conversations s) (laterOf s ?s')"
    by (rule list_all2_mono [OF step_later]) auto
  have "list_all2 (\<lambda>c c'. conv_id c' = conv_id c
        \<and> (title c \<noteq> ''New Chat'' \<longrightarrow> title c' = title c)
        \<and> (lastMessage c' = lastMessage c \<or> length (lastMessage c') \<le> 63))
     (conversations ?s') (laterOf ?s' ?s'')"
    by (rule Cons.IH)
  then have "list_all2 (\<lambda>c c'. conv_id c' = conv_id c
        \<and> (title c \<noteq> ''New Chat'' \<longrightarrow> title c' = title c)
        \<and> (lastMessage c' = lastMessage c \<or> length (lastMessage c') \<le> 63))
     (drop ?k (conversations ?s')) (drop ?k (laterOf ?s' ?s''))"
    by (rule list_all2_dropI)
  then have rest: "list_all2 (\<lambda>c c'. conv_id c' = conv_id c
        \<and> (title c \<noteq> ''New Chat'' \<longrightarrow> title c' = title c)
        \<and> (lastMessage c' = lastMessage c \<or> length (lastMessage c') \<le> 63))
     (laterOf s ?s') (laterOf s ?s'')"
    using laterOf_trans [OF len1 len2] by (simp add: laterOf_def)
  have "list_all2 (\<lambda>c c'. conv_id c' = conv_id c
        \<and> (title c \<noteq> ''New Chat'' \<longrightarrow> title c' = title c)
        \<and> (lastMessage c' = lastMessage c \<or> length (lastMessage c') \<le> 63))
     (conversations s) (laterOf s ?s'')"
    using first rest
    by (rule list_all2_trans [rotated]) auto
  then show ?case by simp
qed

lemma run_keeps_ids:
  "set (map conv_id (conversations s)) \<subseteq> set (map conv_id (conversations (run t0 s es)))"
proof -
  have "list_all2 (\<lambda>c c'. conv_id c' = conv_id c)
          (conversations s) (laterOf s (run t0 s es))"
    by (rule list_all2_mono [OF run_later]) simp
  then have "map conv_id (laterOf s (run t0 s es)) = map conv_id (conversations s)"
    by (simp add: list_all2_eq list_all2_map1 list_all2_map2 list_all2_conv_all_nth)
  moreover have "set (laterOf s (run t0 s es)) \<subseteq> set (conversations (run t0 s es))"
    by (simp add: laterOf_def set_drop_subset)
  ultimately show ?thesis
    by (metis image_mono set_map)
qed

subsection \<open>Unfolding the controller on closed terms\<close>

lemmas page_defs =
  mounted_def autoSelectEffect_def initialState_def stateOf_def mockConversations_def
  loadConversationMessages_def mockMessages_def mockMessagesTable_def
  handleSelectConversation_def handleCreateNew_def handleSendMessage_call_def
  handleSendMessage_resume_def updateConversationMetadata_def truncateTo_def
  generateConversationId_def generateMessageId_def showInt_def
  trim_def isWhiteSpace_def Let_def

lemmas text_defs =
  generateMockResponse_def toLowerCase_def toLowerChar_def char_of_nat_bits Let_def

section \<open>Claims\<close>

text \<open>
  C1. The response classifier is a function of the user's text alone. It lowercases the
  text and returns the canned reply of the first rule, in the order issues, statistics,
  pull requests, labels, one of whose keywords occurs in the lowercased text; when no rule
  matches it returns the fallback sentence around the text exactly as it was given (case
  and surrounding blanks kept). On \<^verbatim>\<open>bug in my pull request\<close> the reply is the issues
  menu, which is not the pull-request menu. One input per rule and one for the fallback
  are evaluated to the strings of the source.
\<close>

theorem generateMockResponse_classify:
  \<open>generateMockResponse userText = classify userText
   \<and> fallbackReply userText =
       ''I understand you're asking about "'' @ userText @
       ''". Let me help you with that. Could you provide more details about what you'd like me to do?''
   \<and> generateMockResponse ''bug in my pull request'' =
       ''I can help you with issues. Would you like me to:\<newline>\<newline>1. List open issues\<newline>2. Search for specific issues\<newline>3. Create a new issue\<newline>4. Get details about a particular issue\<newline>\<newline>What would you like to do?''
   \<and> generateMockResponse ''bug in my pull request'' = issuesReply
   \<and> issuesReply \<noteq> pullRequestsReply
   \<and> generateMockResponse ''Team Velocity?'' =
       ''I can provide repository statistics and team velocity metrics. Let me fetch the latest data for you...''
   \<and> generateMockResponse ''Review my PR'' =
       ''I can help you with pull requests. Would you like me to:\<newline>\<newline>1. List open pull requests\<newline>2. Review a specific PR\<newline>3. Get PR details\<newline>\<newline>What would you like to do?''
   \<and> generateMockResponse ''Rename a Label'' =
       ''I can help you manage labels. Would you like to:\<newline>\<newline>1. List all labels\<newline>2. Create a new label\<newline>3. Update existing labels\<newline>4. Get labels for a specific issue\<newline>\<newline>What would you like to do?''
   \<and> generateMockResponse '' Hello There '' =
       ''I understand you're asking about " Hello There ". Let me help you with that. Could you provide more details about what you'd like me to do?''\<close>
proof (intro conjI)
  show "generateMockResponse userText = classify userText"
    by (simp add: generateMockResponse_def classify_def classifierRules_def
        ruleMatches_def includes_str_iff fallbackReply_def Let_def)
  show \<open>fallbackReply userText =
       ''I understand you're asking about "'' @ userText @
       ''". Let me help you with that. Could you provide more details about what you'd like me to do?''\<close>
    by (simp add: fallbackReply_def)
  show "generateMockResponse ''bug in my pull request'' =
       ''I can help you with issues. Would you like me to:\<newline>\<newline>1. List open issues\<newline>2. Search for specific issues\<newline>3. Create a new issue\<newline>4. Get details about a particular issue\<newline>\<newline>What would you like to do?''"
    by (simp add: text_defs issuesReply_def)
  show "generateMockResponse ''bug in my pull request'' = issuesReply"
    by (simp add: text_defs)
  show "issuesReply \<noteq> pullRequestsReply"
    by (simp add: issuesReply_def pullRequestsReply_def)
  show "generateMockResponse ''Team Velocity?'' =
       ''I can provide repository statistics and team velocity metrics. Let me fetch the latest data for you...''"
    by (simp add: text_defs statsReply_def)
  show "generateMockResponse ''Review my PR'' =
       ''I can help you with pull requests. Would you like me to:\<newline>\<newline>1. List open pull requests\<newline>2. Review a specific PR\<newline>3. Get PR details\<newline>\<newline>What would you like to do?''"
    by (simp add: text_defs pullRequestsReply_def)
  show "generateMockResponse ''Rename a Label'' =
       ''I can help you manage labels. Would you like to:\<newline>\<newline>1. List all labels\<newline>2. Create a new label\<newline>3. Update existing labels\<newline>4. Get labels for a specific issue\<newline>\<newline>What would you like to do?''"
    by (simp add: text_defs labelsReply_def)
  show \<open>generateMockResponse '' Hello There '' =
       ''I understand you're asking about " Hello There ". Let me help you with that. Could you provide more details about what you'd like me to do?''\<close>
    by (simp add: text_defs fallbackReply_def)
qed

text \<open>
  C2. The claim: the updates made by the delayed continuation of \<^verbatim>\<open>handleSendMessage\<close>
  (the append of the model message and the second metadata update) go to the conversation
  that was selected when the call was made, also when another conversation has been
  selected by the time the timer fires. The code reads \<^verbatim>\<open>currentConversationId\<close> and
  \<^verbatim>\<open>chatContent\<close> again after the \<^verbatim>\<open>await\<close>. Evaluated here: with \<^verbatim>\<open>conv-1\<close> selected,
  \<^verbatim>\<open>hello\<close> is sent; \<^verbatim>\<open>conv-2\<close> is selected (the handler does not throw); the timer fires.
  The reply is appended to the thread of \<^verbatim>\<open>conv-2\<close> and the second update counts it for
  \<^verbatim>\<open>conv-2\<close>, whose last message it becomes; \<^verbatim>\<open>conv-1\<close> is counted once, not twice.
\<close>

theorem reply_goes_to_conversation_selected_when_timer_fires:
  "currentConversationId (mounted 0) = Some ''conv-1''
   \<and> snd (handleSendMessage_call (mounted 0) ''hello'' 1 ''a'') = Some ''hello''
   \<and> handleSelectConversation 0
        (fst (handleSendMessage_call (mounted 0) ''hello'' 1 ''a'')) ''conv-2''
      = Inr (stateOf (handleSelectConversation 0
          (fst (handleSendMessage_call (mounted 0) ''hello'' 1 ''a'')) ''conv-2''))
   \<and> map messageCount (conversations (mounted 0)) = [4, 6, 5, 3, 7, 4, 8]
   \<and> map messageCount (conversations
        (handleSendMessage_resume
          (stateOf (handleSelectConversation 0
            (fst (handleSendMessage_call (mounted 0) ''hello'' 1 ''a'')) ''conv-2''))
          ''hello'' 2 ''b'')) = [5, 7, 5, 3, 7, 4, 8]
   \<and> map msg_id (chatContent
        (handleSendMessage_resume
          (stateOf (handleSelectConversation 0
            (fst (handleSendMessage_call (mounted 0) ''hello'' 1 ''a'')) ''conv-2''))
          ''hello'' 2 ''b''))
       = [''msg-2-1'', ''msg-2-2'', ''msg-2-3'', ''msg-2-4'', ''msg-2-5'', ''msg-2-6'',
          ''msg-2-b'']
   \<and> lastMessage (conversations
        (handleSendMessage_resume
          (stateOf (handleSelectConversation 0
            (fst (handleSendMessage_call (mounted 0) ''hello'' 1 ''a'')) ''conv-2''))
          ''hello'' 2 ''b'') ! 1)
       = truncateTo 60 (generateMockResponse ''hello'')"
  by (simp add: mounted_def autoSelectEffect_def initialState_def stateOf_def
      mockConversations_def loadConversationMessages_def mockMessages_def
      mockMessagesTable_def handleSendMessage_call_def handleSendMessage_resume_def
      handleSelectConversation_def updateConversationMetadata_def generateMessageId_def
      showInt_def showNat.simps char_of_nat_bits trim_def isWhiteSpace_def Let_def)

text \<open>
  C3, as the claim states it, fails. \<^verbatim>\<open>handleSelectConversation\<close> and \<^verbatim>\<open>handleCreateNew\<close>
  replace the thread on display and clear \<^verbatim>\<open>isProcessing\<close>, and they do not cancel the
  timer. With \<^verbatim>\<open>conv-1\<close> selected, \<^verbatim>\<open>hello\<close> is sent and \<^verbatim>\<open>conv-1\<close> is selected again before
  the timer fires: the flag is false while the reply is pending, and after the timer the
  thread is the seeded thread followed by the reply, without the user's message.
\<close>

theorem select_between_clears_flag_and_drops_user_message:
  "currentConversationId (mounted 0) = Some ''conv-1''
   \<and> trim ''hello'' \<noteq> []
   \<and> snd (handleSendMessage_call (mounted 0) ''hello'' 1 ''a'') = Some ''hello''
   \<and> isProcessing (run 0 (mounted 0) [SendMessage ''hello'' 1 ''a''])
   \<and> \<not> isProcessing (run 0 (mounted 0)
          [SendMessage ''hello'' 1 ''a'', SelectConversation ''conv-1''])
   \<and> map msg_id (chatContent (run 0 (mounted 0) [SendMessage ''hello'' 1 ''a'']))
      = [''msg-1-1'', ''msg-1-2'', ''msg-1-3'', ''msg-1-4'', ''msg-1-a'']
   \<and> map msg_id (chatContent (run 0 (mounted 0)
          [SendMessage ''hello'' 1 ''a'', SelectConversation ''conv-1'',
           TimerFires ''hello'' 2 ''b'']))
      = [''msg-1-1'', ''msg-1-2'', ''msg-1-3'', ''msg-1-4'', ''msg-2-b'']"
  by (simp add: page_defs showNat.simps char_of_nat_bits)

text \<open>
  C3, amended. When a conversation is selected (its id is not empty: ids start with
  \<^verbatim>\<open>conv-\<close>) and the text is not empty after trimming, the call of \<^verbatim>\<open>handleSendMessage\<close>
  appends exactly one message to \<^verbatim>\<open>chatContent\<close>, from the user, with the trimmed text,
  sets \<^verbatim>\<open>isProcessing\<close> and leaves a continuation behind. The continuation, on whatever
  state it runs, appends exactly one message, from the model, at the end of the thread on
  display and clears \<^verbatim>\<open>isProcessing\<close>. When it runs on the state its call left (no other
  handler in between) the thread is the old thread, the user message, the model message,
  in that order. \<^verbatim>\<open>handleCreateNew\<close>, and \<^verbatim>\<open>handleSelectConversation\<close> when it does not
  throw, replace the thread on display and clear \<^verbatim>\<open>isProcessing\<close>.
\<close>

theorem sendMessage_appends_user_then_model:
  assumes "currentConversationId s = Some ident" and "ident \<noteq> []" and "trim msg \<noteq> []"
  shows "chatContent (fst (handleSendMessage_call s msg now rnd)) =
           chatContent s @ [\<lparr>msg_id = generateMessageId now rnd, msg_from = User,
             content = trim msg, msg_timestamp = now, status = Some Complete\<rparr>]
       \<and> isProcessing (fst (handleSendMessage_call s msg now rnd))
       \<and> snd (handleSendMessage_call s msg now rnd) = Some msg
       \<and> chatContent (handleSendMessage_resume (fst (handleSendMessage_call s msg now rnd))
            msg now' rnd') =
           chatContent s @ [\<lparr>msg_id = generateMessageId now rnd, msg_from = User,
             content = trim msg, msg_timestamp = now, status = Some Complete\<rparr>,
            \<lparr>msg_id = generateMessageId now' rnd', msg_from = Model,
             content = generateMockResponse msg, msg_timestamp = now',
             status = Some Complete\<rparr>]
       \<and> \<not> isProcessing (handleSendMessage_resume (fst (handleSendMessage_call s msg now rnd))
            msg now' rnd')
       \<and> chatContent (handleSendMessage_resume s' msg now' rnd') =
           chatContent s' @ [\<lparr>msg_id = generateMessageId now' rnd', msg_from = Model,
             content = generateMockResponse msg, msg_timestamp = now',
             status = Some Complete\<rparr>]
       \<and> \<not> isProcessing (handleSendMessage_resume s' msg now' rnd')
       \<and> chatContent (handleCreateNew s' now'') = []
       \<and> \<not> isProcessing (handleCreateNew s' now'')
       \<and> (mockMessages t0 other \<noteq> Inherited \<longrightarrow>
            chatContent (stateOf (handleSelectConversation t0 s' other))
              = (case mockMessages t0 other of Thread ms \<Rightarrow> ms | _ \<Rightarrow> [])
            \<and> \<not> isProcessing (stateOf (handleSelectConversation t0 s' other)))"
  using assms
  by (simp add: call_guard resume_chatContent resume_fields select_no_throw stateOf_def
      handleCreateNew_def Let_def)

theorem sendMessage_appends_user_then_model_witness:
  "currentConversationId (mounted 0) = Some ''conv-1'' \<and> ''conv-1'' \<noteq> [] \<and> trim '' hi '' \<noteq> []
   \<and> mockMessages 0 ''conv-2'' \<noteq> Inherited
   \<and> map content (chatContent (handleSendMessage_resume
          (fst (handleSendMessage_call (mounted 0) '' hi '' 1 ''a'')) '' hi '' 2 ''b''))
      = map content (chatContent (mounted 0)) @ [''hi'', generateMockResponse '' hi '']
   \<and> isProcessing (fst (handleSendMessage_call (mounted 0) '' hi '' 1 ''a''))
   \<and> \<not> isProcessing (stateOf (handleSelectConversation 0
          (fst (handleSendMessage_call (mounted 0) '' hi '' 1 ''a'')) ''conv-2''))"
proof -
  have h1: "currentConversationId (mounted 0) = Some ''conv-1''"
    by (rule mounted_selected)
  have h2: "''conv-1'' \<noteq> []" by simp
  have h3: "trim '' hi '' \<noteq> []" by (simp add: trim_def isWhiteSpace_def)
  have h4: "trim '' hi '' = ''hi''" by (simp add: trim_def isWhiteSpace_def)
  have h5: "mockMessages 0 ''conv-2'' \<noteq> Inherited"
    by (simp add: mockMessages_def mockMessagesTable_def)
  from sendMessage_appends_user_then_model
    [OF h1 h2 h3, where now = 1 and rnd = "''a''" and now' = 2 and rnd' = "''b''"
       and ?t0.0 = 0 and other = "''conv-2''"
       and s' = "fst (handleSendMessage_call (mounted 0) '' hi '' 1 ''a'')"]
    h1 h3 h4 h5
  show ?thesis by simp
qed

text \<open>
  C4. A call of \<^verbatim>\<open>handleSendMessage\<close> made when no conversation is selected, or with a text
  that is empty after trimming, returns the state as it was (thread, flag, conversations
  with all their metadata) and leaves no continuation behind; there is no error value.
\<close>

theorem sendMessage_guard_noop:
  "currentConversationId s = None \<or> trim msg = []
   \<Longrightarrow> handleSendMessage_call s msg now rnd = (s, None)"
  by (auto simp: handleSendMessage_call_def split: option.splits)

theorem sendMessage_guard_noop_witness:
  "(currentConversationId (mounted 0) = None \<or> trim ''   '' = [])
   \<and> handleSendMessage_call (mounted 0) ''   '' 1 ''a'' = (mounted 0, None)
   \<and> (currentConversationId (initialState 0) = None \<or> trim ''hi'' = [])
   \<and> handleSendMessage_call (initialState 0) ''hi'' 1 ''a'' = (initialState 0, None)"
proof -
  have h1: "currentConversationId (mounted 0) = None \<or> trim ''   '' = []"
    by (simp add: trim_def isWhiteSpace_def)
  have h2: "currentConversationId (initialState 0) = None \<or> trim ''hi'' = []"
    by (simp add: initialState_def)
  from sendMessage_guard_noop [OF h1] sendMessage_guard_noop [OF h2] h1 h2
  show ?thesis by blast
qed

text \<open>
  C5. The claim: every message appended to a conversation's thread raises its
  \<^verbatim>\<open>messageCount\<close> by one, so a completed exchange raises the count of the conversation it
  was sent to by exactly two. Evaluated here on the seeded page, where the counts are
  4, 6, 5, 3, 7, 4, 8 and \<^verbatim>\<open>conv-1\<close> is selected: an exchange with nothing in between
  raises the count of \<^verbatim>\<open>conv-1\<close> to 6; the same exchange with \<^verbatim>\<open>conv-2\<close> selected before the
  timer fires raises \<^verbatim>\<open>conv-1\<close> to 5 only and \<^verbatim>\<open>conv-2\<close> to 7, because the continuation
  reads \<^verbatim>\<open>currentConversationId\<close> again.
\<close>

theorem interrupted_exchange_counts_owner_once:
  "map messageCount (conversations (mounted 0)) = [4, 6, 5, 3, 7, 4, 8]
   \<and> map messageCount (conversations (run 0 (mounted 0)
        [SendMessage ''hello'' 1 ''a'', TimerFires ''hello'' 2 ''b'']))
      = [6, 6, 5, 3, 7, 4, 8]
   \<and> map messageCount (conversations (run 0 (mounted 0)
        [SendMessage ''hello'' 1 ''a'', SelectConversation ''conv-2'',
         TimerFires ''hello'' 2 ''b'']))
      = [5, 7, 5, 3, 7, 4, 8]"
  by (simp add: page_defs)

text \<open>
  C6, as the claim states it, fails. The code derives a title when the title is still
  \<^verbatim>\<open>New Chat\<close> and the thread on display holds exactly one message; it does not ask
  whether the message is the conversation's first. A new conversation whose first text is
  \<^verbatim>\<open>New Chat\<close> keeps the default title through the exchange (count 2); selected again,
  its thread on display is empty, and the next text, its third message, becomes the title.
\<close>

theorem title_derived_on_third_message:
  "title (hd (conversations (run 0 (mounted 0)
      [CreateNew 1000, SendMessage ''New Chat'' 1001 ''a'', TimerFires ''New Chat'' 1002 ''b'',
       SelectConversation ''conv-1000'']))) = ''New Chat''
   \<and> messageCount (hd (conversations (run 0 (mounted 0)
      [CreateNew 1000, SendMessage ''New Chat'' 1001 ''a'', TimerFires ''New Chat'' 1002 ''b'',
       SelectConversation ''conv-1000'']))) = 2
   \<and> title (hd (conversations (run 0 (mounted 0)
      [CreateNew 1000, SendMessage ''New Chat'' 1001 ''a'', TimerFires ''New Chat'' 1002 ''b'',
       SelectConversation ''conv-1000'', SendMessage ''hello'' 1003 ''c'']))) = ''hello''"
  by (simp add: page_defs objectPrototypeKeys_def showNat.simps char_of_nat_bits)

text \<open>
  C6, amended. Over every run, a title other than \<^verbatim>\<open>New Chat\<close> never changes again, so
  a title changes away from the default at most once. One event changes a title only by
  its metadata update, only for the selected conversation, only while that title is still
  \<^verbatim>\<open>New Chat\<close> and the thread on display holds exactly one message after the event; the
  new title is the text of that update if that is at most 30 characters, else its first
  30 characters followed by \<^verbatim>\<open>...\<close>. The same holds of \<^verbatim>\<open>updateConversationMetadata\<close> on
  its own. In an exchange with no other handler between call and continuation, the call
  sets the title, to the truncated trimmed text, exactly when the title is the default
  and the thread on display was empty, and the continuation changes no title.
\<close>

theorem title_changes_once_with_one_message_on_display:
  "list_all2 (\<lambda>c c'. title c \<noteq> ''New Chat'' \<longrightarrow> title c' = title c)
     (conversations s) (laterOf s (run t0 s es))
   \<and> list_all2 (\<lambda>c c'. title c' = title c
          \<or> title c = ''New Chat'' \<and> currentConversationId s = Some (conv_id c)
            \<and> length (chatContent (step t0 s e)) = 1
            \<and> title c' = (if length (updateText e) \<le> 30 then updateText e
                           else take 30 (updateText e) @ ''...''))
        (conversations s) (laterOf s (step t0 s e))
   \<and> list_all2 (\<lambda>c c'. title c' =
          (if conv_id c = ident \<and> title c = ''New Chat'' \<and> length (chatContent s) = 1
           then (if length msg \<le> 30 then msg else take 30 msg @ ''...'')
           else title c))
        (conversations s) (conversations (updateConversationMetadata s ident msg now))
   \<and> (currentConversationId s = Some ident \<and> ident \<noteq> [] \<and> trim msg \<noteq> [] \<longrightarrow>
        list_all2 (\<lambda>c c'. title c' =
              (if conv_id c = ident \<and> title c = ''New Chat'' \<and> chatContent s = []
               then (if length (trim msg) \<le> 30 then trim msg
                     else take 30 (trim msg) @ ''...'')
               else title c))
           (conversations s) (conversations (fst (handleSendMessage_call s msg now rnd)))
        \<and> map title (conversations (handleSendMessage_resume
              (fst (handleSendMessage_call s msg now rnd)) msg now' rnd'))
          = map title (conversations (fst (handleSendMessage_call s msg now rnd))))"
proof (intro conjI impI)
  show "list_all2 (\<lambda>c c'. title c \<noteq> ''New Chat'' \<longrightarrow> title c' = title c)
     (conversations s) (laterOf s (run t0 s es))"
    by (rule list_all2_mono [OF run_later]) simp
  show "list_all2 (\<lambda>c c'. title c' = title c
          \<or> title c = ''New Chat'' \<and> currentConversationId s = Some (conv_id c)
            \<and> length (chatContent (step t0 s e)) = 1
            \<and> title c' = (if length (updateText e) \<le> 30 then updateText e
                           else take 30 (updateText e) @ ''...''))
        (conversations s) (laterOf s (step t0 s e))"
    by (rule list_all2_mono [OF step_later]) (auto simp: truncateTo_def)
  show "list_all2 (\<lambda>c c'. title c' =
          (if conv_id c = ident \<and> title c = ''New Chat'' \<and> length (chatContent s) = 1
           then (if length msg \<le> 30 then msg else take 30 msg @ ''...'')
           else title c))
        (conversations s) (conversations (updateConversationMetadata s ident msg now))"
    by (rule list_all2_mono
          [OF update_list_all2 [where i = ident and t = msg and now = now and s = s]])
      (auto simp: truncateTo_def)
next
  assume a: "currentConversationId s = Some ident \<and> ident \<noteq> [] \<and> trim msg \<noteq> []"
  then show "list_all2 (\<lambda>c c'. title c' =
              (if conv_id c = ident \<and> title c = ''New Chat'' \<and> chatContent s = []
               then (if length (trim msg) \<le> 30 then trim msg
                     else take 30 (trim msg) @ ''...'')
               else title c))
           (conversations s) (conversations (fst (handleSendMessage_call s msg now rnd)))"
    by (intro list_all2_mono [OF call_titles [where ident = ident]])
      (auto simp: truncateTo_def)
  from a show "map title (conversations (handleSendMessage_resume
              (fst (handleSendMessage_call s msg now rnd)) msg now' rnd'))
          = map title (conversations (fst (handleSendMessage_call s msg now rnd)))"
    by (simp add: exchange_resume_titles)
qed

theorem title_changes_once_with_one_message_on_display_witness:
  "currentConversationId (handleCreateNew (mounted 0) 1000) = Some ''conv-1000''
   \<and> ''conv-1000'' \<noteq> [] \<and> trim ''Tell me about open issues in the tracker'' \<noteq> []
   \<and> map title (conversations (handleCreateNew (mounted 0) 1000))
      = [''New Chat'', ''GitHub Issue Analysis'', ''Repository Statistics'',
         ''Team Velocity Metrics'', ''Codebase Query'', ''Issue Creation Help'',
         ''Label Management'', ''Pull Request Review'']
   \<and> map title (conversations (run 0 (handleCreateNew (mounted 0) 1000)
        [SendMessage ''Tell me about open issues in the tracker'' 1001 ''a'',
         TimerFires ''Tell me about open issues in the tracker'' 1002 ''b'',
         SendMessage ''Other title'' 1003 ''c'']))
      = [''Tell me about open issues in t...'', ''GitHub Issue Analysis'',
         ''Repository Statistics'', ''Team Velocity Metrics'', ''Codebase Query'',
         ''Issue Creation Help'', ''Label Management'', ''Pull Request Review'']"
  using title_changes_once_with_one_message_on_display
    [where ?t0.0 = 0 and s = "handleCreateNew (mounted 0) 1000"
       and es = "[SendMessage ''Tell me about open issues in the tracker'' 1001 ''a'',
          TimerFires ''Tell me about open issues in the tracker'' 1002 ''b'',
          SendMessage ''Other title'' 1003 ''c'']"
       and e = "SendMessage ''Tell me about open issues in the tracker'' 1001 ''a''"
       and ident = "''conv-1000''" and msg = "''Tell me about open issues in the tracker''"
       and now = 1001 and rnd = "''a''" and now' = 1002 and rnd' = "''b''"]
  by (simp add: page_defs showNat.simps char_of_nat_bits laterOf_def)




text \<open>
  C8, as the claim states it, fails: after \<^verbatim>\<open>handleSelectConversation\<close> with an id that no
  conversation has, \<^verbatim>\<open>currentConversationId\<close> is that id, not \<^verbatim>\<open>null\<close>, and a following
  \<^verbatim>\<open>handleSendMessage\<close> passes its guard, which it does not when no conversation is
  selected.
\<close>

theorem select_unknown_id_is_selected:
  "''conv-999'' \<notin> set (map conv_id (conversations (mounted 0)))
   \<and> handleSelectConversation 0 (mounted 0) ''conv-999''
      = Inr (stateOf (handleSelectConversation 0 (mounted 0) ''conv-999''))
   \<and> currentConversationId (stateOf (handleSelectConversation 0 (mounted 0) ''conv-999''))
      = Some ''conv-999''
   \<and> snd (handleSendMessage_call
        (stateOf (handleSelectConversation 0 (mounted 0) ''conv-999'')) ''hi'' 1 ''a'')
      = Some ''hi''
   \<and> length (chatContent (fst (handleSendMessage_call
        (stateOf (handleSelectConversation 0 (mounted 0) ''conv-999'')) ''hi'' 1 ''a''))) = 1"
  by (simp add: mounted_conversations mockConversations_def handleSelectConversation_def
      loadConversationMessages_def handleSendMessage_call_def Let_def trim_def
      isWhiteSpace_def mockMessages_def mockMessagesTable_def objectPrototypeKeys_def
      stateOf_def)

text \<open>
  C8, amended. In every state that a run reaches from the mounted page, for an id that no
  conversation has and that does not name a member of \<^verbatim>\<open>Object.prototype\<close>,
  \<^verbatim>\<open>handleSelectConversation\<close> does not throw and returns the state in which
  \<^verbatim>\<open>currentConversationId\<close> is the given id, the thread is empty and \<^verbatim>\<open>isProcessing\<close> is
  false; the conversations are as they were. When the id is not the empty string, a
  following \<^verbatim>\<open>handleSendMessage\<close> with a text that is not empty after trimming passes its
  guard.
\<close>

theorem select_unknown_id_stores_id_with_empty_thread:
  assumes "ident \<notin> set (map conv_id (conversations (run t0 (mounted t0) es)))"
    and "ident \<notin> set objectPrototypeKeys"
  shows "handleSelectConversation t0 (run t0 (mounted t0) es) ident =
     Inr ((run t0 (mounted t0) es)\<lparr>currentConversationId := Some ident, chatContent := [],
        isProcessing := False\<rparr>)
   \<and> (ident \<noteq> [] \<and> trim msg \<noteq> [] \<longrightarrow>
        snd (handleSendMessage_call
          (stateOf (handleSelectConversation t0 (run t0 (mounted t0) es) ident)) msg now rnd)
        = Some msg)"
proof -
  from assms(1) run_keeps_ids [of "mounted t0" t0 es]
  have "ident \<notin> set (map conv_id (mockConversations t0))"
    by (auto simp: mounted_conversations)
  then have undef: "mockMessages t0 ident = Undefined"
    using assms(2) by (rule mockMessages_Undefined)
  then have sel: "handleSelectConversation t0 (run t0 (mounted t0) es) ident =
     Inr ((run t0 (mounted t0) es)\<lparr>currentConversationId := Some ident, chatContent := [],
        isProcessing := False\<rparr>)"
    by (simp add: select_no_throw)
  then show ?thesis
    by (simp add: stateOf_def call_guard)
qed

theorem select_unknown_id_stores_id_with_empty_thread_witness:
  "''conv-999'' \<notin> set (map conv_id (conversations (run 0 (mounted 0) [CreateNew 5])))
   \<and> ''conv-999'' \<notin> set objectPrototypeKeys
   \<and> ''conv-999'' \<noteq> [] \<and> trim ''hi'' \<noteq> []
   \<and> handleSelectConversation 0 (run 0 (mounted 0) [CreateNew 5]) ''conv-999'' =
     Inr ((run 0 (mounted 0) [CreateNew 5])\<lparr>currentConversationId := Some ''conv-999'',
        chatContent := [], isProcessing := False\<rparr>)
   \<and> snd (handleSendMessage_call
        (stateOf (handleSelectConversation 0 (run 0 (mounted 0) [CreateNew 5]) ''conv-999''))
        ''hi'' 1 ''a'') = Some ''hi''"
proof -
  have h1: "''conv-999'' \<notin> set (map conv_id (conversations (run 0 (mounted 0) [CreateNew 5])))"
    by (simp add: handleCreateNew_def Let_def mounted_conversations mockConversations_def
        generateConversationId_def showInt_def showNat.simps char_of_nat_bits)
  have h2: "''conv-999'' \<notin> set objectPrototypeKeys"
    by (simp add: objectPrototypeKeys_def)
  have h3: "''conv-999'' \<noteq> [] \<and> trim ''hi'' \<noteq> []"
    by (simp add: trim_def isWhiteSpace_def)
  from select_unknown_id_stores_id_with_empty_thread
    [OF h1 h2, where msg = "''hi''" and now = 1 and rnd = "''a''"] h1 h2 h3
  show ?thesis by blast
qed

text \<open>
  C9. The claim: the ids of the conversations are pairwise distinct after any sequence of
  operations. \<^verbatim>\<open>generateConversationId\<close> renders the clock and nothing else, so two calls of
  \<^verbatim>\<open>handleCreateNew\<close> that read the same millisecond put two conversations with one id at
  the front of the list.
\<close>

theorem createNew_twice_in_one_millisecond_same_id:
  "map conv_id (conversations (handleCreateNew (handleCreateNew s now) now))
     = generateConversationId now # generateConversationId now # map conv_id (conversations s)
   \<and> \<not> distinct (map conv_id (conversations (handleCreateNew (handleCreateNew s now) now)))
   \<and> map conv_id (conversations (run 0 (mounted 0) [CreateNew 1000, CreateNew 1000]))
     = [''conv-1000'', ''conv-1000'', ''conv-1'', ''conv-2'', ''conv-3'', ''conv-4'',
        ''conv-5'', ''conv-6'', ''conv-7'']"
proof (intro conjI)
  show "map conv_id (conversations (handleCreateNew (handleCreateNew s now) now))
     = generateConversationId now # generateConversationId now # map conv_id (conversations s)"
    by (simp add: handleCreateNew_def Let_def)
  then show "\<not> distinct (map conv_id
      (conversations (handleCreateNew (handleCreateNew s now) now)))"
    by simp
  show "map conv_id (conversations (run 0 (mounted 0) [CreateNew 1000, CreateNew 1000]))
     = [''conv-1000'', ''conv-1000'', ''conv-1'', ''conv-2'', ''conv-3'', ''conv-4'',
        ''conv-5'', ''conv-6'', ''conv-7'']"
    by (simp add: handleCreateNew_def Let_def mounted_conversations mockConversations_def
        generateConversationId_def showInt_def showNat.simps char_of_nat_bits)
qed

text \<open>
  C10. \<^verbatim>\<open>updateConversationMetadata\<close> keeps the length of the list and the order of the
  ids, leaves every conversation with another id as it was, in all fields, and does not
  touch the thread, the selected id or \<^verbatim>\<open>isProcessing\<close>; when no conversation has the given
  id, the state is unchanged.
\<close>

theorem updateConversationMetadata_frame:
  "length (conversations (updateConversationMetadata s conversationId lastMsg now))
     = length (conversations s)
   \<and> map conv_id (conversations (updateConversationMetadata s conversationId lastMsg now))
     = map conv_id (conversations s)
   \<and> list_all2 (\<lambda>c c'. conv_id c \<noteq> conversationId \<longrightarrow> c' = c)
        (conversations s)
        (conversations (updateConversationMetadata s conversationId lastMsg now))
   \<and> chatContent (updateConversationMetadata s conversationId lastMsg now) = chatContent s
   \<and> currentConversationId (updateConversationMetadata s conversationId lastMsg now)
     = currentConversationId s
   \<and> isProcessing (updateConversationMetadata s conversationId lastMsg now) = isProcessing s
   \<and> (conversationId \<notin> set (map conv_id (conversations s))
        \<longrightarrow> updateConversationMetadata s conversationId lastMsg now = s)"
proof -
  have "list_all2 (\<lambda>c c'. conv_id c \<noteq> conversationId \<longrightarrow> c' = c)
        (conversations s)
        (conversations (updateConversationMetadata s conversationId lastMsg now))"
    by (rule list_all2_mono
          [OF update_list_all2
            [where i = conversationId and t = lastMsg and now = now and s = s]])
      simp
  then show ?thesis
    by (simp add: update_no_match)
qed

theorem updateConversationMetadata_frame_witness:
  "map conv_id (conversations (mounted 0))
     = [''conv-1'', ''conv-2'', ''conv-3'', ''conv-4'', ''conv-5'', ''conv-6'', ''conv-7'']
   \<and> tl (conversations (updateConversationMetadata (mounted 0) ''conv-1'' ''hi'' 5))
     = tl (conversations (mounted 0))
   \<and> hd (conversations (updateConversationMetadata (mounted 0) ''conv-1'' ''hi'' 5))
     \<noteq> hd (conversations (mounted 0))
   \<and> ''conv-0'' \<notin> set (map conv_id (conversations (mounted 0)))
   \<and> updateConversationMetadata (mounted 0) ''conv-0'' ''hi'' 5 = mounted 0"
proof -
  have ids: "map conv_id (conversations (mounted 0))
     = [''conv-1'', ''conv-2'', ''conv-3'', ''conv-4'', ''conv-5'', ''conv-6'', ''conv-7'']"
    by (simp add: mounted_conversations mockConversations_def)
  have h: "''conv-0'' \<notin> set (map conv_id (conversations (mounted 0)))"
    by (simp add: ids)
  have unchanged: "updateConversationMetadata (mounted 0) ''conv-0'' ''hi'' 5 = mounted 0"
    using updateConversationMetadata_frame
      [where s = "mounted 0" and conversationId = "''conv-0''" and lastMsg = "''hi''"
         and now = 5] h
    by blast
  have others: "tl (conversations (updateConversationMetadata (mounted 0) ''conv-1'' ''hi'' 5))
     = tl (conversations (mounted 0))
   \<and> hd (conversations (updateConversationMetadata (mounted 0) ''conv-1'' ''hi'' 5))
     \<noteq> hd (conversations (mounted 0))"
    by (simp add: mounted_conversations mockConversations_def updateConversationMetadata_def)
  from ids h unchanged others show ?thesis by blast
qed

end
